theory Spec2Isabelle
  imports Main "HOL-Library.Sublist"
begin

section \<open>Python values, exceptions and the operations the client applies to them\<close>

text \<open>
  The client handles two kinds of values: the arguments of its methods and the objects that
  \<^verbatim>\<open>call_to_json()\<close> hands back (parsed JSON). Both are Python objects; a dict is an
  association list in insertion order, looked up with \<open>map_of\<close>. JSON numbers with a
  fraction are left out of the model: no method of the client computes with them.
\<close>

datatype pyval =
    PNone
  | PBool bool
  | PInt int
  | PStr string
  | PList "pyval list"
  | PDict "(string \<times> pyval) list"

text \<open>
  The exceptions that the modelled methods can raise. \<open>TransportError\<close> stands for
  whatever the HTTP collaborator raises; the client lets it pass unchanged.
\<close>

datatype error =
    KeyError string
  | TypeError
  | AttributeError
  | ValueError string
  | TransportError string

definition bind_err :: "error + 'a \<Rightarrow> ('a \<Rightarrow> error + 'b) \<Rightarrow> error + 'b" where
  "bind_err r f = (case r of Inl e \<Rightarrow> Inl e | Inr v \<Rightarrow> f v)"

text \<open>
  \<^verbatim>\<open>obj[key]\<close> with a string key: a dict yields the value or raises KeyError; every other
  JSON value (None, bool, int, str, list) raises TypeError.
\<close>

fun subscript :: "pyval \<Rightarrow> string \<Rightarrow> error + pyval" where
  "subscript (PDict d) key = (case map_of d key of None \<Rightarrow> Inl (KeyError key) | Some v \<Rightarrow> Inr v)"
| "subscript PNone key = Inl TypeError"
| "subscript (PBool b) key = Inl TypeError"
| "subscript (PInt i) key = Inl TypeError"
| "subscript (PStr s) key = Inl TypeError"
| "subscript (PList xs) key = Inl TypeError"

text \<open>Python's truth test, as \<^verbatim>\<open>not access_token\<close> applies it.\<close>

fun truthy :: "pyval \<Rightarrow> bool" where
  "truthy PNone = False"
| "truthy (PBool b) = b"
| "truthy (PInt i) = (i \<noteq> 0)"
| "truthy (PStr s) = (s \<noteq> [])"
| "truthy (PList xs) = (xs \<noteq> [])"
| "truthy (PDict d) = (d \<noteq> [])"

text \<open>\<^verbatim>\<open>obj.items()\<close>: only a dict has the attribute.\<close>

fun dict_items :: "pyval \<Rightarrow> error + (string \<times> pyval) list" where
  "dict_items (PDict d) = Inr d"
| "dict_items PNone = Inl AttributeError"
| "dict_items (PBool b) = Inl AttributeError"
| "dict_items (PInt i) = Inl AttributeError"
| "dict_items (PStr s) = Inl AttributeError"
| "dict_items (PList xs) = Inl AttributeError"

text \<open>\<^verbatim>\<open>d[key] = value\<close> on a dict: an existing key keeps its place, a new one goes last.\<close>

fun dict_setitem :: "(string \<times> 'v) list \<Rightarrow> string \<Rightarrow> 'v \<Rightarrow> (string \<times> 'v) list" where
  "dict_setitem [] key v = [(key, v)]"
| "dict_setitem ((k, x) # d) key v = (if k = key then (k, v) # d else (k, x) # dict_setitem d key v)"

text \<open>Method arguments as Python objects: \<open>Optional[str]\<close>, \<open>Optional[List[str]]\<close>, \<open>Optional[bool]\<close>.\<close>

definition py_opt_str :: "string option \<Rightarrow> pyval" where
  "py_opt_str x = (case x of None \<Rightarrow> PNone | Some s \<Rightarrow> PStr s)"

definition py_opt_strs :: "string list option \<Rightarrow> pyval" where
  "py_opt_strs x = (case x of None \<Rightarrow> PNone | Some xs \<Rightarrow> PList (map PStr xs))"

definition py_opt_bool :: "bool option \<Rightarrow> pyval" where
  "py_opt_bool x = (case x of None \<Rightarrow> PNone | Some b \<Rightarrow> PBool b)"

section \<open>The HTTP collaborator\<close>

text \<open>
  \<^verbatim>\<open>ClientBase.http_endpoint\<close> is a dependency of the client: it receives the path, the
  verb and either query fields or a body, and its \<^verbatim>\<open>call_to_json\<close> /
  \<^verbatim>\<open>call_to_response\<close> perform the request. The model keeps the request as the
  keyword arguments it was built from (name/value pairs in the order written; the argument
  \<^verbatim>\<open>fields\<close> is the field \<open>qfields\<close>) and takes the
  remote service as a parameter: a function from the request and the service's state to a
  response (or an exception) and the next state. The world also records every request that
  was issued, in order.
\<close>

record request =
  path :: string
  http_method :: string
  qfields :: "(string \<times> pyval) list option"
  body :: "(string \<times> pyval) list option"

type_synonym 's transport = "request \<Rightarrow> 's \<Rightarrow> (error + pyval) \<times> 's"

record 's world =
  server :: 's
  sent :: "request list"

definition http_endpoint ::
  "string \<Rightarrow> string \<Rightarrow> (string \<times> pyval) list option \<Rightarrow> (string \<times> pyval) list option \<Rightarrow> request" where
  "http_endpoint p m f b = \<lparr>path = p, http_method = m, qfields = f, body = b\<rparr>"

definition call_to_json :: "'s transport \<Rightarrow> request \<Rightarrow> 's world \<Rightarrow> (error + pyval) \<times> 's world" where
  "call_to_json t r w =
     (case t r (server w) of
        (res, s') \<Rightarrow> (res, \<lparr>server = s', sent = sent w @ [r]\<rparr>))"

definition call_to_response :: "'s transport \<Rightarrow> request \<Rightarrow> 's world \<Rightarrow> (error + unit) \<times> 's world" where
  "call_to_response t r w =
     (case call_to_json t r w of
        (Inl e, w') \<Rightarrow> (Inl e, w')
      | (Inr v, w') \<Rightarrow> (Inr (), w'))"

section \<open>Domain values\<close>

text \<open>
  The classes \<^verbatim>\<open>User\<close> and \<^verbatim>\<open>Token\<close> are value objects built by keyword arguments.
  A \<open>User\<close> is the record of the keyword arguments of its constructor call: \<open>None\<close>
  for an argument that the call does not pass, \<open>Some v\<close> for one it passes (\<open>v\<close> may
  be Python's None). The class \<^verbatim>\<open>Token\<close> (models/token.py) is not among the sources:
  its constructor is a parameter \<open>Token_init\<close> of the methods that call it, a function
  from the keyword arguments to the Token built or the exception raised.
\<close>

record User =
  user_group_ids :: "pyval option"
  user_username :: "pyval option"
  user_preferred_username :: "pyval option"
  user_email :: "pyval option"
  user_first_name :: "pyval option"
  user_last_name :: "pyval option"
  user_tmp_password :: "pyval option"
  user_permissions :: "pyval option"
  user_is_active :: "pyval option"

text \<open>
  \<^verbatim>\<open>Token(**obj)\<close>: the argument after \<^verbatim>\<open>**\<close> must be a mapping; its entries are the
  keyword arguments of the constructor, which may itself raise.
\<close>

fun Token_from_mapping :: "((string \<times> pyval) list \<Rightarrow> error + 'tok) \<Rightarrow> pyval \<Rightarrow> error + 'tok" where
  "Token_from_mapping Token_init (PDict d) = Token_init d"
| "Token_from_mapping Token_init PNone = Inl TypeError"
| "Token_from_mapping Token_init (PBool b) = Inl TypeError"
| "Token_from_mapping Token_init (PInt i) = Inl TypeError"
| "Token_from_mapping Token_init (PStr s) = Inl TypeError"
| "Token_from_mapping Token_init (PList xs) = Inl TypeError"

section \<open>ClientUser\<close>

subsection \<open>get\<close>

definition get :: "'s transport \<Rightarrow> string \<Rightarrow> 's world \<Rightarrow> (error + User) \<times> 's world" where
  "get t username w =
     (case call_to_json t
             (http_endpoint ''/user/get'' ''GET'' (Some [(''username'', PStr username)]) None) w of
        (Inl e, w') \<Rightarrow> (Inl e, w')
      | (Inr user_json, w') \<Rightarrow>
          (bind_err (subscript user_json ''group_ids'') (\<lambda>group_ids.
           bind_err (subscript user_json ''username'') (\<lambda>uname.
           bind_err (subscript user_json ''preferred_username'') (\<lambda>preferred_username.
           bind_err (subscript user_json ''email'') (\<lambda>email.
           bind_err (subscript user_json ''first_name'') (\<lambda>first_name.
           bind_err (subscript user_json ''last_name'') (\<lambda>last_name.
           bind_err (subscript user_json ''permissions'') (\<lambda>permissions.
           bind_err (subscript user_json ''is_active'') (\<lambda>is_active.
             Inr \<lparr>user_group_ids = Some group_ids,
                  user_username = Some uname,
                  user_preferred_username = Some preferred_username,
                  user_email = Some email,
                  user_first_name = Some first_name,
                  user_last_name = Some last_name,
                  user_tmp_password = None,
                  user_permissions = Some permissions,
                  user_is_active = Some is_active\<rparr>)))))))), w'))"

subsection \<open>create\<close>

definition create ::
  "'s transport \<Rightarrow> string \<Rightarrow> string \<Rightarrow> string \<Rightarrow> string \<Rightarrow> string option \<Rightarrow>
   string list option \<Rightarrow> string list option \<Rightarrow> 's world \<Rightarrow> (error + User) \<times> 's world" where
  "create t email preferred_username first_name last_name username group_ids permissions w =
     (case call_to_json t
             (http_endpoint ''/user/create'' ''POST'' None
                (Some [(''username'', py_opt_str username),
                       (''group_ids'', py_opt_strs group_ids),
                       (''email'', PStr email),
                       (''preferred_username'', PStr preferred_username),
                       (''first_name'', PStr first_name),
                       (''last_name'', PStr last_name),
                       (''permissions'', py_opt_strs permissions)])) w of
        (Inl e, w') \<Rightarrow> (Inl e, w')
      | (Inr user_json, w') \<Rightarrow>
          (bind_err (subscript user_json ''username'') (\<lambda>uname.
           bind_err (subscript user_json ''tmp_password'') (\<lambda>tmp_password.
             Inr \<lparr>user_group_ids = Some (py_opt_strs group_ids),
                  user_username = Some uname,
                  user_preferred_username = Some (PStr preferred_username),
                  user_email = Some (PStr email),
                  user_first_name = Some (PStr first_name),
                  user_last_name = Some (PStr last_name),
                  user_tmp_password = Some tmp_password,
                  user_permissions = Some (py_opt_strs permissions),
                  user_is_active = None\<rparr>)), w'))"

subsection \<open>update\<close>

definition update ::
  "'s transport \<Rightarrow> string \<Rightarrow> string option \<Rightarrow> string option \<Rightarrow> string option \<Rightarrow> string option \<Rightarrow>
   string list option \<Rightarrow> string list option \<Rightarrow> 's world \<Rightarrow> (error + unit) \<times> 's world" where
  "update t username email preferred_username first_name last_name group_ids permissions w =
     (let body0 = [(''username'', PStr username),
                   (''email'', py_opt_str email),
                   (''preferred_username'', py_opt_str preferred_username),
                   (''first_name'', py_opt_str first_name),
                   (''last_name'', py_opt_str last_name),
                   (''group_ids'', py_opt_strs group_ids),
                   (''permissions'', py_opt_strs permissions)];
          body1 = filter (\<lambda>(key, val). val \<noteq> PNone) body0
      in call_to_response t (http_endpoint ''/user/update'' ''PUT'' None (Some body1)) w)"

subsection \<open>filter\<close>

text \<open>\<^verbatim>\<open>usernames or []\<close>: None and the empty list both give the empty list.\<close>

definition or_empty :: "'a list option \<Rightarrow> 'a list" where
  "or_empty xs = (case xs of None \<Rightarrow> [] | Some ys \<Rightarrow> (if ys = [] then [] else ys))"

definition partial_user :: "pyval \<Rightarrow> error + User" where
  "partial_user user_dict =
     bind_err (subscript user_dict ''group_ids'') (\<lambda>group_ids.
     bind_err (subscript user_dict ''username'') (\<lambda>uname.
     bind_err (subscript user_dict ''preferred_username'') (\<lambda>preferred_username.
     bind_err (subscript user_dict ''email'') (\<lambda>email.
     bind_err (subscript user_dict ''first_name'') (\<lambda>first_name.
     bind_err (subscript user_dict ''last_name'') (\<lambda>last_name.
       Inr \<lparr>user_group_ids = Some group_ids,
            user_username = Some uname,
            user_preferred_username = Some preferred_username,
            user_email = Some email,
            user_first_name = Some first_name,
            user_last_name = Some last_name,
            user_tmp_password = None,
            user_permissions = None,
            user_is_active = None\<rparr>))))))"

text \<open>The loop over \<^verbatim>\<open>response_body_json.items()\<close>; an exception ends it.\<close>

fun filter_loop :: "(string \<times> pyval) list \<Rightarrow> (string \<times> User) list \<Rightarrow> error + (string \<times> User) list" where
  "filter_loop [] users = Inr users"
| "filter_loop ((key, user_dict) # rest) users =
     bind_err (partial_user user_dict) (\<lambda>u. filter_loop rest (dict_setitem users key u))"

definition filter_users ::
  "'s transport \<Rightarrow> string option \<Rightarrow> string list option \<Rightarrow> bool option \<Rightarrow> 's world \<Rightarrow>
   (error + (string \<times> User) list) \<times> 's world" where
  "filter_users t group_id usernames is_active w =
     (case call_to_json t
             (http_endpoint ''/user/filter'' ''GET''
                (Some ([(''group_id'', py_opt_str group_id),
                        (''is_active'', py_opt_bool is_active)]
                       @ map (\<lambda>username. (''username'', PStr username)) (or_empty usernames)))
                None) w of
        (Inl e, w') \<Rightarrow> (Inl e, w')
      | (Inr response_body_json, w') \<Rightarrow>
          (bind_err (dict_items response_body_json) (\<lambda>items. filter_loop items []), w'))"

subsection \<open>confirm\<close>

definition confirm_message :: string where
  "confirm_message =
     ''Something went wrong. '' @
     ''Access token was not created, hence, the new user probably was not confirmed. '' @
     ''Please try again, or contact administrators.''"

text \<open>Lines 157 to 178: the token request and, on a challenge, the reply to it.\<close>

definition confirm_token_json ::
  "'s transport \<Rightarrow> string \<Rightarrow> string \<Rightarrow> string \<Rightarrow> 's world \<Rightarrow> (error + pyval) \<times> 's world" where
  "confirm_token_json t username tmp_password new_password w =
     (case call_to_json t
             (http_endpoint ''/token/create'' ''POST'' None
                (Some [(''username'', PStr username), (''password'', PStr tmp_password)])) w of
        (Inl e, w') \<Rightarrow> (Inl e, w')
      | (Inr token_json, w') \<Rightarrow>
          (case subscript token_json ''is_challenge'' of
             Inl e \<Rightarrow> (Inl e, w')
           | Inr is_challenge \<Rightarrow>
               if is_challenge = PBool True then
                 (case bind_err (subscript token_json ''challenge'') (\<lambda>c1.
                       bind_err (subscript c1 ''challenge_name'') (\<lambda>challenge_name.
                       bind_err (subscript token_json ''challenge'') (\<lambda>c2.
                       bind_err (subscript c2 ''session'') (\<lambda>session.
                         Inr [(''challenge_name'', challenge_name),
                              (''challenge_session'', session),
                              (''challenge_response'',
                                 PDict [(''USERNAME'', PStr username),
                                        (''NEW_PASSWORD'', PStr new_password)])])))) of
                    Inl e \<Rightarrow> (Inl e, w')
                  | Inr challenge_body \<Rightarrow>
                      call_to_json t
                        (http_endpoint ''/token/challenge'' ''POST'' None (Some challenge_body)) w')
               else (Inr token_json, w')))"

text \<open>
  Lines 180 to 190: the access token is looked up under a handler for KeyError and
  ValueError only; any other exception leaves the method.
\<close>

definition confirm_access_token :: "pyval \<Rightarrow> error + pyval" where
  "confirm_access_token token_json =
     (case bind_err (subscript token_json ''authentication'')
             (\<lambda>authentication. subscript authentication ''access_token'') of
        Inl (KeyError k) \<Rightarrow> Inr PNone
      | Inl (ValueError m) \<Rightarrow> Inr PNone
      | Inl e \<Rightarrow> Inl e
      | Inr access_token \<Rightarrow> Inr access_token)"

definition confirm ::
  "'s transport \<Rightarrow> string \<Rightarrow> string \<Rightarrow> string \<Rightarrow> 's world \<Rightarrow> (error + unit) \<times> 's world" where
  "confirm t username tmp_password new_password w =
     (case confirm_token_json t username tmp_password new_password w of
        (Inl e, w') \<Rightarrow> (Inl e, w')
      | (Inr token_json, w') \<Rightarrow>
          (bind_err (confirm_access_token token_json) (\<lambda>access_token.
             if \<not> truthy access_token then Inl (ValueError confirm_message) else Inr ()), w'))"

subsection \<open>create_token\<close>

definition unconfirmed_message :: string where
  "unconfirmed_message =
     ''User was not confirmed. '' @
     ''Please confirm user first, before creating tokens. '' @
     ''Hint: to confirm user, call '' @ [CHR 0x22] @ ''ClientUser'' @ ''.'' @ ''confirm'' @ [CHR 0x22] @ '' method.''"

definition create_token ::
  "((string \<times> pyval) list \<Rightarrow> error + 'tok) \<Rightarrow> 's transport \<Rightarrow> string \<Rightarrow> string \<Rightarrow> 's world \<Rightarrow>
   (error + 'tok) \<times> 's world" where
  "create_token Token_init t username password w =
     (case call_to_json t
             (http_endpoint ''/token/create'' ''POST'' None
                (Some [(''username'', PStr username), (''password'', PStr password)])) w of
        (Inl e, w') \<Rightarrow> (Inl e, w')
      | (Inr token_json, w') \<Rightarrow>
          (bind_err (subscript token_json ''is_challenge'') (\<lambda>is_challenge.
             if is_challenge = PBool True then Inl (ValueError unconfirmed_message)
             else bind_err (subscript token_json ''authentication'')
                    (Token_from_mapping Token_init)), w'))"

section \<open>Stand-ins for the collaborators\<close>

text \<open>
  A stand-in for the remote service, for running the client on concrete inputs: its state
  is the queue of responses still to be given, and it answers every request with the next
  one, whatever the request is.
\<close>

definition scripted :: "pyval list transport" where
  "scripted r s = (case s of [] \<Rightarrow> (Inl (TransportError ''no response left''), []) | x # xs \<Rightarrow> (Inr x, xs))"

text \<open>
  A service that keeps users: /user/create stores the body it receives under the username in
  it and answers with that username and a temporary password; /user/get answers with the
  stored entries of the username asked for, together with \<open>is_active\<close>. Everything else
  is an error of the transport.
\<close>

definition user_store :: "(string \<times> (string \<times> pyval) list) list transport" where
  "user_store r s =
     (if path r = ''/user/create'' then
        (case body r of
           None \<Rightarrow> (Inl (TransportError ''400''), s)
         | Some b \<Rightarrow>
             (case map_of b ''username'' of
                Some (PStr name) \<Rightarrow>
                  (Inr (PDict [(''username'', PStr name), (''tmp_password'', PStr ''Tmp#1'')]),
                   dict_setitem s name b)
              | _ \<Rightarrow> (Inl (TransportError ''400''), s)))
      else if path r = ''/user/get'' then
        (case qfields r of
           Some [(key, PStr name)] \<Rightarrow>
             (case map_of s name of
                None \<Rightarrow> (Inl (TransportError ''404''), s)
              | Some b \<Rightarrow> (Inr (PDict (b @ [(''is_active'', PBool True)])), s))
         | _ \<Rightarrow> (Inl (TransportError ''400''), s))
      else (Inl (TransportError ''404''), s))"

text \<open>
  A constructor with declared keyword parameters, as a Python class with named fields has:
  a required parameter that is missing and a keyword that is not declared each raise
  TypeError; otherwise the object built holds the arguments.
\<close>

datatype token = Token "(string \<times> pyval) list"

definition keyword_init :: "string list \<Rightarrow> string list \<Rightarrow> (string \<times> pyval) list \<Rightarrow> error + token" where
  "keyword_init required optional kwargs =
     (if list_all (\<lambda>k. k \<in> set (map fst kwargs)) required
         \<and> list_all (\<lambda>k. k \<in> set (required @ optional)) (map fst kwargs)
      then Inr (Token kwargs) else Inl TypeError)"

section \<open>Properties of the requests and results\<close>

subsection \<open>The request log\<close>

text \<open>
  Every call appends its request to the log, whether the service answers or raises.
\<close>

lemma sent_call_to_json: "sent (snd (call_to_json t r w)) = sent w @ [r]"
  by (simp add: call_to_json_def split: prod.splits)

lemma sent_call_to_response: "sent (snd (call_to_response t r w)) = sent w @ [r]"
  using sent_call_to_json [of t r w]
  by (auto simp: call_to_response_def split: prod.splits sum.splits)

lemma snd_case_result:
  "snd (case p of (Inl e, w') \<Rightarrow> (Inl e, w') | (Inr v, w') \<Rightarrow> (f v, w')) = snd p"
  by (simp split: prod.splits sum.splits)

subsection \<open>create_token\<close>

text \<open>
  Claim C1. When the JSON object answering the POST /token/create request has
  \<open>is_challenge\<close> equal to true, \<open>create_token\<close> raises the ValueError whose message
  says that the user was not confirmed and asks to confirm the user first, and returns no
  Token. When \<open>is_challenge\<close> has another value, the result is that of
  \<^verbatim>\<open>Token(**authentication)\<close> for the \<open>authentication\<close> object of the response: the
  Token built from it, or the exception of a constructor that refuses these arguments.
\<close>

theorem create_token_challenge_raises_else_token:
  assumes "t \<lparr>path = ''/token/create'', http_method = ''POST'', qfields = None,
              body = Some [(''username'', PStr username), (''password'', PStr password)]\<rparr>
             (server w) = (Inr (PDict resp), s')"
  shows "(map_of resp ''is_challenge'' = Some (PBool True) \<longrightarrow>
            fst (create_token Token_init t username password w)
              = Inl (ValueError unconfirmed_message))
       \<and> (\<forall>v auth. map_of resp ''is_challenge'' = Some v \<and> v \<noteq> PBool True
              \<and> map_of resp ''authentication'' = Some (PDict auth) \<longrightarrow>
            fst (create_token Token_init t username password w) = Token_init auth)
       \<and> sublist ''User was not confirmed'' unconfirmed_message
       \<and> sublist ''Please confirm user first'' unconfirmed_message"
proof -
  have m1: "sublist ''User was not confirmed'' unconfirmed_message"
    unfolding sublist_def unconfirmed_message_def
    by (rule exI [of _ "[]"], rule exI [of _ "drop 22 unconfirmed_message"])
       (simp add: unconfirmed_message_def)
  have m2: "sublist ''Please confirm user first'' unconfirmed_message"
    unfolding sublist_def unconfirmed_message_def
    by (rule exI [of _ "''User was not confirmed. ''"], rule exI [of _ "drop 49 unconfirmed_message"])
       (simp add: unconfirmed_message_def)
  show ?thesis
    using assms m1 m2
    by (auto simp: create_token_def call_to_json_def http_endpoint_def bind_err_def
           split: prod.splits sum.splits)
qed

text \<open>
  The two branches on the scripted service: a pending challenge, and a token issued with
  the fields that the constructor requires.
\<close>

theorem create_token_challenge_raises_else_token_witness:
  "fst (create_token
          (keyword_init [''access_token'', ''token_type'', ''id_token'', ''expires_in'']
                        [''refresh_token''])
          scripted ''bob'' ''pw''
          \<lparr>server = [PDict [(''is_challenge'', PBool True),
                            (''challenge'', PDict [(''challenge_name'', PStr ''NEW_PASSWORD_REQUIRED''),
                                                   (''session'', PStr ''s1'')])]],
           sent = []\<rparr>)
     = Inl (ValueError unconfirmed_message)
   \<and> fst (create_token
          (keyword_init [''access_token'', ''token_type'', ''id_token'', ''expires_in'']
                        [''refresh_token''])
          scripted ''bob'' ''pw''
          \<lparr>server = [PDict [(''is_challenge'', PBool False),
                            (''authentication'', PDict [(''access_token'', PStr ''tok''),
                                                        (''token_type'', PStr ''Bearer''),
                                                        (''id_token'', PStr ''idt''),
                                                        (''expires_in'', PInt 3600)])]],
           sent = []\<rparr>)
     = Inr (Token [(''access_token'', PStr ''tok''),
                   (''token_type'', PStr ''Bearer''),
                   (''id_token'', PStr ''idt''),
                   (''expires_in'', PInt 3600)])"
proof -
  have h1: "scripted \<lparr>path = ''/token/create'', http_method = ''POST'', qfields = None,
              body = Some [(''username'', PStr ''bob''), (''password'', PStr ''pw'')]\<rparr>
      (server \<lparr>server = [PDict [(''is_challenge'', PBool True),
                            (''challenge'', PDict [(''challenge_name'', PStr ''NEW_PASSWORD_REQUIRED''),
                                                   (''session'', PStr ''s1'')])]],
           sent = []\<rparr>)
     = (Inr (PDict [(''is_challenge'', PBool True),
                            (''challenge'', PDict [(''challenge_name'', PStr ''NEW_PASSWORD_REQUIRED''),
                                                   (''session'', PStr ''s1'')])]), [])"
    by (simp add: scripted_def)
  have h2: "scripted \<lparr>path = ''/token/create'', http_method = ''POST'', qfields = None,
              body = Some [(''username'', PStr ''bob''), (''password'', PStr ''pw'')]\<rparr>
      (server \<lparr>server = [PDict [(''is_challenge'', PBool False),
                            (''authentication'', PDict [(''access_token'', PStr ''tok''),
                                                        (''token_type'', PStr ''Bearer''),
                                                        (''id_token'', PStr ''idt''),
                                                        (''expires_in'', PInt 3600)])]],
           sent = []\<rparr>)
     = (Inr (PDict [(''is_challenge'', PBool False),
                            (''authentication'', PDict [(''access_token'', PStr ''tok''),
                                                        (''token_type'', PStr ''Bearer''),
                                                        (''id_token'', PStr ''idt''),
                                                        (''expires_in'', PInt 3600)])]), [])"
    by (simp add: scripted_def)
  show ?thesis
    using create_token_challenge_raises_else_token
            [where t = scripted and Token_init = "keyword_init [''access_token'', ''token_type'', ''id_token'', ''expires_in'']
                                  [''refresh_token'']", OF h1]
          create_token_challenge_raises_else_token
            [where t = scripted and Token_init = "keyword_init [''access_token'', ''token_type'', ''id_token'', ''expires_in'']
                                  [''refresh_token'']", OF h2]
    by (simp add: keyword_init_def)
qed

subsection \<open>update\<close>

text \<open>
  Claim C3, as the spec words it: with every optional field None, the body of the
  PUT /user/update request is empty. It is not: the body always carries \<open>username\<close>.
\<close>

theorem update_all_none_body_counterexample:
  "sent (snd (update scripted ''bob'' None None None None None None
                \<lparr>server = [PNone], sent = []\<rparr>))
     = [\<lparr>path = ''/user/update'', http_method = ''PUT'', qfields = None,
         body = Some [(''username'', PStr ''bob'')]\<rparr>]
   \<and> body (last (sent (snd (update scripted ''bob'' None None None None None None
                \<lparr>server = [PNone], sent = []\<rparr>)))) \<noteq> Some []"
  by (simp add: update_def call_to_response_def call_to_json_def http_endpoint_def scripted_def
                py_opt_str_def py_opt_strs_def)

text \<open>
  Claim C3, amended. The body of the PUT /user/update request holds \<open>username\<close> and,
  of email, preferred_username, first_name, last_name, group_ids and permissions, exactly
  those that are not None, each once and with the caller's value; no entry is None. With
  every optional field None the body is the single entry \<open>username\<close>.
\<close>

theorem update_body_username_and_non_null_fields:
  "\<exists>b. sent (snd (update t username email preferred_username first_name last_name group_ids permissions w))
          = sent w @ [\<lparr>path = ''/user/update'', http_method = ''PUT'', qfields = None, body = Some b\<rparr>]
       \<and> map_of b ''username'' = Some (PStr username)
       \<and> map_of b ''email'' = map_option PStr email
       \<and> map_of b ''preferred_username'' = map_option PStr preferred_username
       \<and> map_of b ''first_name'' = map_option PStr first_name
       \<and> map_of b ''last_name'' = map_option PStr last_name
       \<and> map_of b ''group_ids'' = map_option (\<lambda>xs. PList (map PStr xs)) group_ids
       \<and> map_of b ''permissions'' = map_option (\<lambda>xs. PList (map PStr xs)) permissions
       \<and> distinct (map fst b)
       \<and> set (map fst b) \<subseteq> {''username'', ''email'', ''preferred_username'', ''first_name'',
                                ''last_name'', ''group_ids'', ''permissions''}
       \<and> PNone \<notin> snd ` set b
       \<and> (email = None \<and> preferred_username = None \<and> first_name = None \<and> last_name = None
            \<and> group_ids = None \<and> permissions = None
            \<longrightarrow> b = [(''username'', PStr username)])"
  by (cases email; cases preferred_username; cases first_name; cases last_name; cases group_ids;
      cases permissions)
     (simp_all add: update_def Let_def sent_call_to_response http_endpoint_def
           py_opt_str_def py_opt_strs_def)

theorem update_body_username_and_non_null_fields_witness:
  "(None = (None :: string option) \<and> None = (None :: string list option))
   \<and> (\<exists>b. sent (snd (update scripted ''bob'' None None None None None None
                        \<lparr>server = [PNone], sent = []\<rparr>))
            = [\<lparr>path = ''/user/update'', http_method = ''PUT'', qfields = None, body = Some b\<rparr>]
          \<and> b = [(''username'', PStr ''bob'')])"
  using update_body_username_and_non_null_fields
          [of scripted "''bob''" None None None None None None "\<lparr>server = [PNone], sent = []\<rparr>"]
  by auto

subsection \<open>confirm\<close>

text \<open>
  Claim C4. When the JSON object answering the initial POST /token/create request of
  \<open>confirm\<close> has an \<open>is_challenge\<close> that is not true (false in particular), the
  only request that \<open>confirm\<close> issues is that one: nothing goes to /token/challenge.
\<close>

theorem confirm_without_challenge_sends_one_request:
  assumes "t \<lparr>path = ''/token/create'', http_method = ''POST'', qfields = None,
              body = Some [(''username'', PStr username), (''password'', PStr tmp_password)]\<rparr>
             (server w) = (Inr (PDict resp), s')"
      and "map_of resp ''is_challenge'' = Some v" and "v \<noteq> PBool True"
  shows "sent (snd (confirm t username tmp_password new_password w))
           = sent w @ [\<lparr>path = ''/token/create'', http_method = ''POST'', qfields = None,
                body = Some [(''username'', PStr username), (''password'', PStr tmp_password)]\<rparr>]
       \<and> filter (\<lambda>r. path r = ''/token/challenge'')
                 (sent (snd (confirm t username tmp_password new_password w)))
           = filter (\<lambda>r. path r = ''/token/challenge'') (sent w)"
  using assms
  by (auto simp: confirm_def confirm_token_json_def call_to_json_def http_endpoint_def
           split: prod.splits sum.splits)

theorem confirm_without_challenge_sends_one_request_witness:
  "scripted \<lparr>path = ''/token/create'', http_method = ''POST'', qfields = None,
              body = Some [(''username'', PStr ''bob''), (''password'', PStr ''Tmp#1'')]\<rparr>
      [PDict [(''is_challenge'', PBool False),
              (''authentication'', PDict [(''access_token'', PStr ''tok'')])]]
     = (Inr (PDict [(''is_challenge'', PBool False),
                    (''authentication'', PDict [(''access_token'', PStr ''tok'')])]), [])
   \<and> map_of [(''is_challenge'', PBool False),
              (''authentication'', PDict [(''access_token'', PStr ''tok'')])] ''is_challenge''
       = Some (PBool False)
   \<and> PBool False \<noteq> PBool True
   \<and> sent (snd (confirm scripted ''bob'' ''Tmp#1'' ''New#2''
                   \<lparr>server = [PDict [(''is_challenge'', PBool False),
                                      (''authentication'', PDict [(''access_token'', PStr ''tok'')])]],
                    sent = []\<rparr>))
       = [\<lparr>path = ''/token/create'', http_method = ''POST'', qfields = None,
           body = Some [(''username'', PStr ''bob''), (''password'', PStr ''Tmp#1'')]\<rparr>]"
proof -
  have h1: "scripted \<lparr>path = ''/token/create'', http_method = ''POST'', qfields = None,
              body = Some [(''username'', PStr ''bob''), (''password'', PStr ''Tmp#1'')]\<rparr>
      (server \<lparr>server = [PDict [(''is_challenge'', PBool False),
              (''authentication'', PDict [(''access_token'', PStr ''tok'')])]], sent = []\<rparr>)
     = (Inr (PDict [(''is_challenge'', PBool False),
                    (''authentication'', PDict [(''access_token'', PStr ''tok'')])]), [])"
    by (simp add: scripted_def)
  have h2: "map_of [(''is_challenge'', PBool False),
              (''authentication'', PDict [(''access_token'', PStr ''tok'')])] ''is_challenge''
       = Some (PBool False)"
    by simp
  have h3: "PBool False \<noteq> PBool True" by simp
  show ?thesis
    using confirm_without_challenge_sends_one_request
            [where t = scripted and new_password = "''New#2''", OF h1 h2 h3] h1
    by simp
qed

subsection \<open>filter\<close>

text \<open>
  Claim C5. \<open>filter\<close> sends one GET /user/filter request. For a list of N usernames
  its query fields hold exactly N entries named \<open>username\<close>, one per element and in
  order, and every scalar filter that was set (\<open>group_id\<close>, \<open>is_active\<close>) with its
  value. The entries whose value is not None are exactly these: a scalar filter that was
  not set is passed on only as a pair with the value None.
\<close>

theorem filter_sends_repeated_username_fields:
  "\<exists>f. sent (snd (filter_users t group_id usernames is_active w))
          = sent w @ [\<lparr>path = ''/user/filter'', http_method = ''GET'', qfields = Some f, body = None\<rparr>]
       \<and> (\<forall>us. usernames = Some us \<longrightarrow>
              map snd (filter (\<lambda>p. fst p = ''username'') f) = map PStr us
            \<and> length (filter (\<lambda>p. fst p = ''username'') f) = length us)
       \<and> (usernames = None \<longrightarrow> filter (\<lambda>p. fst p = ''username'') f = [])
       \<and> (\<forall>g. group_id = Some g \<longrightarrow> (''group_id'', PStr g) \<in> set f)
       \<and> (\<forall>a. is_active = Some a \<longrightarrow> (''is_active'', PBool a) \<in> set f)
       \<and> filter (\<lambda>p. snd p \<noteq> PNone) f
            = (case group_id of None \<Rightarrow> [] | Some g \<Rightarrow> [(''group_id'', PStr g)])
            @ (case is_active of None \<Rightarrow> [] | Some a \<Rightarrow> [(''is_active'', PBool a)])
            @ map (\<lambda>u. (''username'', PStr u)) (case usernames of None \<Rightarrow> [] | Some us \<Rightarrow> us)"
proof -
  have log: "sent (snd (filter_users t group_id usernames is_active w))
          = sent w @ [\<lparr>path = ''/user/filter'', http_method = ''GET'',
                qfields = Some ([(''group_id'', py_opt_str group_id),
                        (''is_active'', py_opt_bool is_active)]
                       @ map (\<lambda>username. (''username'', PStr username)) (or_empty usernames)),
                body = None\<rparr>]"
    by (simp add: filter_users_def snd_case_result sent_call_to_json http_endpoint_def)
  have or_empty: "or_empty usernames = (case usernames of None \<Rightarrow> [] | Some us \<Rightarrow> us)"
    by (simp add: or_empty_def split: option.splits)
  have names: "filter (\<lambda>p. fst p = ''username'') (map (\<lambda>u. (''username'', PStr u)) us)
                 = map (\<lambda>u. (''username'', PStr u)) us" for us
    by (induction us) simp_all
  have vals: "filter (\<lambda>p. snd p \<noteq> PNone) (map (\<lambda>u. (''username'', PStr u)) us)
                 = map (\<lambda>u. (''username'', PStr u)) us" for us
    by (induction us) simp_all
  show ?thesis
    unfolding log or_empty
    by (rule exI [of _ "[(''group_id'', py_opt_str group_id), (''is_active'', py_opt_bool is_active)]
                       @ map (\<lambda>username. (''username'', PStr username))
                           (case usernames of None \<Rightarrow> [] | Some us \<Rightarrow> us)"])
       (auto simp: names vals py_opt_str_def py_opt_bool_def comp_def split: option.splits)
qed

theorem filter_sends_repeated_username_fields_witness:
  "\<exists>f. sent (snd (filter_users scripted (Some ''g1'') (Some [''ann'', ''bob'']) None
                      \<lparr>server = [PDict []], sent = []\<rparr>))
          = [\<lparr>path = ''/user/filter'', http_method = ''GET'', qfields = Some f, body = None\<rparr>]
       \<and> map snd (filter (\<lambda>p. fst p = ''username'') f) = [PStr ''ann'', PStr ''bob'']
       \<and> length (filter (\<lambda>p. fst p = ''username'') f) = 2
       \<and> (''group_id'', PStr ''g1'') \<in> set f
       \<and> filter (\<lambda>p. snd p \<noteq> PNone) f
            = [(''group_id'', PStr ''g1''), (''username'', PStr ''ann''), (''username'', PStr ''bob'')]"
  using filter_sends_repeated_username_fields
          [of scripted "Some ''g1''" "Some [''ann'', ''bob'']" None "\<lparr>server = [PDict []], sent = []\<rparr>"]
  by auto

subsection \<open>create\<close>

text \<open>
  Claim C8. The body of the POST /user/create request always has the seven keys username,
  group_ids, email, preferred_username, first_name, last_name and permissions, in this
  order; an optional argument that was not supplied is sent as None, not left out.
\<close>

theorem create_body_has_all_seven_keys:
  "\<exists>b. sent (snd (create t email preferred_username first_name last_name username group_ids permissions w))
          = sent w @ [\<lparr>path = ''/user/create'', http_method = ''POST'', qfields = None, body = Some b\<rparr>]
       \<and> map fst b = [''username'', ''group_ids'', ''email'', ''preferred_username'',
                        ''first_name'', ''last_name'', ''permissions'']
       \<and> (username = None \<longrightarrow> map_of b ''username'' = Some PNone)
       \<and> (group_ids = None \<longrightarrow> map_of b ''group_ids'' = Some PNone)
       \<and> (permissions = None \<longrightarrow> map_of b ''permissions'' = Some PNone)"
  by (auto simp: create_def call_to_json_def http_endpoint_def py_opt_str_def py_opt_strs_def
           split: prod.splits sum.splits)

theorem create_body_has_all_seven_keys_witness:
  "\<exists>b. sent (snd (create scripted ''a@x.org'' ''al'' ''Al'' ''Lee'' None None None
                      \<lparr>server = [], sent = []\<rparr>))
          = [\<lparr>path = ''/user/create'', http_method = ''POST'', qfields = None, body = Some b\<rparr>]
       \<and> map fst b = [''username'', ''group_ids'', ''email'', ''preferred_username'',
                        ''first_name'', ''last_name'', ''permissions'']
       \<and> map_of b ''username'' = Some PNone
       \<and> map_of b ''group_ids'' = Some PNone
       \<and> map_of b ''permissions'' = Some PNone"
  using create_body_has_all_seven_keys
          [of scripted "''a@x.org''" "''al''" "''Al''" "''Lee''" None None None
              "\<lparr>server = [], sent = []\<rparr>"]
  by simp

text \<open>
  Claim C9. The User that a successful \<open>create\<close> returns carries the caller's email,
  preferred_username, first_name, last_name, group_ids and permissions (the last two
  possibly None); only username and tmp_password are read from the response.
\<close>

theorem create_returns_caller_values:
  assumes "create t email preferred_username first_name last_name username group_ids permissions w
             = (Inr u, w')"
  shows "user_email u = Some (PStr email)
       \<and> user_preferred_username u = Some (PStr preferred_username)
       \<and> user_first_name u = Some (PStr first_name)
       \<and> user_last_name u = Some (PStr last_name)
       \<and> user_group_ids u = Some (py_opt_strs group_ids)
       \<and> user_permissions u = Some (py_opt_strs permissions)
       \<and> (\<exists>user_json s' uname tmp_password.
             path (last (sent w')) = ''/user/create''
           \<and> t (last (sent w')) (server w) = (Inr user_json, s')
           \<and> subscript user_json ''username'' = Inr uname
           \<and> user_username u = Some uname
           \<and> subscript user_json ''tmp_password'' = Inr tmp_password
           \<and> user_tmp_password u = Some tmp_password)"
  using assms
  by (auto simp: create_def call_to_json_def http_endpoint_def bind_err_def
           split: prod.splits sum.splits)

lemma create_run:
  "create scripted ''a@x.org'' ''al'' ''Al'' ''Lee'' None (Some [''staff'']) None
       \<lparr>server = [PDict [(''username'', PStr ''u-1''), (''tmp_password'', PStr ''Tmp#1'')]],
        sent = []\<rparr>
   = (Inr \<lparr>user_group_ids = Some (PList [PStr ''staff'']),
           user_username = Some (PStr ''u-1''),
           user_preferred_username = Some (PStr ''al''),
           user_email = Some (PStr ''a@x.org''),
           user_first_name = Some (PStr ''Al''),
           user_last_name = Some (PStr ''Lee''),
           user_tmp_password = Some (PStr ''Tmp#1''),
           user_permissions = Some PNone,
           user_is_active = None\<rparr>,
      \<lparr>server = [],
       sent = [\<lparr>path = ''/user/create'', http_method = ''POST'', qfields = None,
                body = Some [(''username'', PNone),
                             (''group_ids'', PList [PStr ''staff'']),
                             (''email'', PStr ''a@x.org''),
                             (''preferred_username'', PStr ''al''),
                             (''first_name'', PStr ''Al''),
                             (''last_name'', PStr ''Lee''),
                             (''permissions'', PNone)]\<rparr>]\<rparr>)"
  by (simp add: create_def call_to_json_def http_endpoint_def bind_err_def scripted_def
                py_opt_str_def py_opt_strs_def)

theorem create_returns_caller_values_witness:
  "fst (create scripted ''a@x.org'' ''al'' ''Al'' ''Lee'' None (Some [''staff'']) None
         \<lparr>server = [PDict [(''username'', PStr ''u-1''), (''tmp_password'', PStr ''Tmp#1'')]],
          sent = []\<rparr>)
     = Inr \<lparr>user_group_ids = Some (PList [PStr ''staff'']),
             user_username = Some (PStr ''u-1''),
             user_preferred_username = Some (PStr ''al''),
             user_email = Some (PStr ''a@x.org''),
             user_first_name = Some (PStr ''Al''),
             user_last_name = Some (PStr ''Lee''),
             user_tmp_password = Some (PStr ''Tmp#1''),
             user_permissions = Some PNone,
             user_is_active = None\<rparr>
   \<and> subscript (PDict [(''username'', PStr ''u-1''), (''tmp_password'', PStr ''Tmp#1'')]) ''username''
       = Inr (PStr ''u-1'')
   \<and> subscript (PDict [(''username'', PStr ''u-1''), (''tmp_password'', PStr ''Tmp#1'')]) ''tmp_password''
       = Inr (PStr ''Tmp#1'')"
  using create_returns_caller_values [OF create_run] create_run
  by (auto simp: scripted_def)

subsection \<open>Results read from a response\<close>

text \<open>
  A chain of lookups succeeds only when every lookup does; a partial User holds what the
  six lookups of \<open>filter\<close> returned and nothing else.
\<close>

lemma bind_err_Inr: "(bind_err r f = Inr y) = (\<exists>v. r = Inr v \<and> f v = Inr y)"
  by (cases r) (simp_all add: bind_err_def)

lemma partial_user_Inr:
  assumes "partial_user user_dict = Inr u"
  shows "map_option Inr (user_group_ids u) = Some (subscript user_dict ''group_ids'')
       \<and> map_option Inr (user_username u) = Some (subscript user_dict ''username'')
       \<and> map_option Inr (user_preferred_username u) = Some (subscript user_dict ''preferred_username'')
       \<and> map_option Inr (user_email u) = Some (subscript user_dict ''email'')
       \<and> map_option Inr (user_first_name u) = Some (subscript user_dict ''first_name'')
       \<and> map_option Inr (user_last_name u) = Some (subscript user_dict ''last_name'')
       \<and> user_permissions u = None \<and> user_is_active u = None \<and> user_tmp_password u = None"
  using assms unfolding partial_user_def bind_err_Inr by auto

lemma keys_dict_setitem: "fst ` set (dict_setitem d key v) = insert key (fst ` set d)"
  by (induction d key v rule: dict_setitem.induct) auto

lemma set_dict_setitem: "set (dict_setitem d key v) \<subseteq> insert (key, v) (set d)"
  by (induction d key v rule: dict_setitem.induct) auto

lemma filter_loop_keys:
  "filter_loop items acc = Inr users \<Longrightarrow> fst ` set users = fst ` set acc \<union> fst ` set items"
proof (induction items acc rule: filter_loop.induct)
  case (1 users')
  then show ?case by simp
next
  case (2 key user_dict rest acc)
  from "2.prems" obtain u where u: "partial_user user_dict = Inr u"
    and rest: "filter_loop rest (dict_setitem acc key u) = Inr users"
    by (auto simp: bind_err_Inr)
  from "2.IH" [OF rest] show ?case
    by (simp add: keys_dict_setitem)
qed

lemma filter_loop_values:
  "filter_loop items acc = Inr users \<Longrightarrow> (k, u) \<in> set users \<Longrightarrow>
     (k, u) \<in> set acc \<or> (\<exists>user_dict. (k, user_dict) \<in> set items \<and> partial_user user_dict = Inr u)"
proof (induction items acc rule: filter_loop.induct)
  case (1 users')
  then show ?case by simp
next
  case (2 key user_dict rest acc)
  from "2.prems" obtain u0 where u0: "partial_user user_dict = Inr u0"
    and rest: "filter_loop rest (dict_setitem acc key u0) = Inr users"
    by (auto simp: bind_err_Inr)
  from "2.IH" [OF rest "2.prems"(2)]
  consider "(k, u) \<in> set (dict_setitem acc key u0)"
    | "\<exists>d. (k, d) \<in> set rest \<and> partial_user d = Inr u"
    by blast
  then show ?case
  proof cases
    case 1
    with set_dict_setitem [of acc key u0] have "(k, u) = (key, u0) \<or> (k, u) \<in> set acc" by auto
    with u0 show ?thesis by auto
  next
    case 2
    then show ?thesis by auto
  qed
qed

lemma fst_get_Inr:
  assumes "fst (get t name w) = Inr u'"
  shows "\<exists>user_json. fst (t \<lparr>path = ''/user/get'', http_method = ''GET'',
                               qfields = Some [(''username'', PStr name)], body = None\<rparr> (server w))
                        = Inr user_json
           \<and> map_option Inr (user_username u') = Some (subscript user_json ''username'')
           \<and> map_option Inr (user_email u') = Some (subscript user_json ''email'')
           \<and> map_option Inr (user_preferred_username u')
                = Some (subscript user_json ''preferred_username'')
           \<and> map_option Inr (user_first_name u') = Some (subscript user_json ''first_name'')
           \<and> map_option Inr (user_last_name u') = Some (subscript user_json ''last_name'')"
  using assms
  by (auto simp: get_def call_to_json_def http_endpoint_def bind_err_Inr
           split: prod.splits sum.splits)

lemma fst_create_Inr:
  assumes "fst (create t email preferred_username first_name last_name username group_ids permissions w)
             = Inr u"
  shows "user_email u = Some (PStr email)
       \<and> user_preferred_username u = Some (PStr preferred_username)
       \<and> user_first_name u = Some (PStr first_name)
       \<and> user_last_name u = Some (PStr last_name)"
  using assms
  by (auto simp: create_def call_to_json_def http_endpoint_def bind_err_Inr
           split: prod.splits sum.splits)

subsection \<open>confirm and the access token\<close>

lemma confirm_access_token_cases:
  "confirm_access_token tj =
     (case tj of
        PDict resp \<Rightarrow>
          (case map_of resp ''authentication'' of
             None \<Rightarrow> Inr PNone
           | Some (PDict auth) \<Rightarrow>
               (case map_of auth ''access_token'' of None \<Rightarrow> Inr PNone | Some tok \<Rightarrow> Inr tok)
           | Some other \<Rightarrow> Inl TypeError)
      | other \<Rightarrow> Inl TypeError)"
  by (cases tj)
     (auto simp: confirm_access_token_def bind_err_def split: option.splits pyval.splits)

lemma fst_confirm:
  assumes "fst (confirm_token_json t username tmp_password new_password w) = Inr token_json"
  shows "fst (confirm t username tmp_password new_password w)
           = bind_err (confirm_access_token token_json)
               (\<lambda>access_token. if \<not> truthy access_token then Inl (ValueError confirm_message) else Inr ())"
  using assms by (auto simp: confirm_def split: prod.splits sum.splits)

text \<open>
  Claim C10. Let the token requests of \<open>confirm\<close> end with the response
  \<open>token_json\<close> (the answer to /token/create, or to /token/challenge after a challenge).
  Then \<open>confirm\<close> returns normally exactly when \<open>token_json\<close> holds, under its
  \<open>authentication\<close> object, an \<open>access_token\<close> that passes Python's truth test
  (for a string: that is not empty). A missing \<open>authentication\<close> key, a missing
  \<open>access_token\<close> key and an empty access token each raise the ValueError of the failed
  confirmation.
\<close>

theorem confirm_returns_iff_truthy_access_token:
  assumes "fst (confirm_token_json t username tmp_password new_password w) = Inr token_json"
  shows "((fst (confirm t username tmp_password new_password w) = Inr ())
           = (\<exists>resp auth tok. token_json = PDict resp
                \<and> map_of resp ''authentication'' = Some (PDict auth)
                \<and> map_of auth ''access_token'' = Some tok \<and> truthy tok))
    \<and> (\<forall>resp. token_json = PDict resp \<and> map_of resp ''authentication'' = None \<longrightarrow>
           fst (confirm t username tmp_password new_password w) = Inl (ValueError confirm_message))
    \<and> (\<forall>resp auth. token_json = PDict resp \<and> map_of resp ''authentication'' = Some (PDict auth)
              \<and> map_of auth ''access_token'' = None \<longrightarrow>
           fst (confirm t username tmp_password new_password w) = Inl (ValueError confirm_message))
    \<and> (\<forall>resp auth. token_json = PDict resp \<and> map_of resp ''authentication'' = Some (PDict auth)
              \<and> map_of auth ''access_token'' = Some (PStr []) \<longrightarrow>
           fst (confirm t username tmp_password new_password w) = Inl (ValueError confirm_message))"
  unfolding fst_confirm [OF assms] confirm_access_token_cases
  by (auto simp: bind_err_def split: option.splits pyval.splits if_splits)

text \<open>
  Four runs on the scripted service: a challenge answered with a token, and the three
  failures the claim names.
\<close>

lemma run_challenge:
  "fst (confirm_token_json scripted ''bob'' ''Tmp#1'' ''New#2''
         \<lparr>server = [PDict [(''is_challenge'', PBool True),
                           (''challenge'', PDict [(''challenge_name'', PStr ''NEW_PASSWORD_REQUIRED''),
                                                  (''session'', PStr ''s1'')])],
                    PDict [(''is_challenge'', PBool False),
                           (''authentication'', PDict [(''access_token'', PStr ''tok'')])]],
          sent = []\<rparr>)
     = Inr (PDict [(''is_challenge'', PBool False),
                   (''authentication'', PDict [(''access_token'', PStr ''tok'')])])"
  by (simp add: confirm_token_json_def call_to_json_def http_endpoint_def bind_err_def scripted_def)

lemma run_plain:
  "fst (confirm_token_json scripted ''bob'' ''Tmp#1'' ''New#2''
         \<lparr>server = [PDict ((''is_challenge'', PBool False) # rest)], sent = []\<rparr>)
     = Inr (PDict ((''is_challenge'', PBool False) # rest))"
  by (simp add: confirm_token_json_def call_to_json_def http_endpoint_def bind_err_def scripted_def)

theorem confirm_returns_iff_truthy_access_token_witness:
  "fst (confirm scripted ''bob'' ''Tmp#1'' ''New#2''
         \<lparr>server = [PDict [(''is_challenge'', PBool True),
                           (''challenge'', PDict [(''challenge_name'', PStr ''NEW_PASSWORD_REQUIRED''),
                                                  (''session'', PStr ''s1'')])],
                    PDict [(''is_challenge'', PBool False),
                           (''authentication'', PDict [(''access_token'', PStr ''tok'')])]],
          sent = []\<rparr>) = Inr ()
   \<and> fst (confirm scripted ''bob'' ''Tmp#1'' ''New#2''
         \<lparr>server = [PDict [(''is_challenge'', PBool False)]], sent = []\<rparr>)
       = Inl (ValueError confirm_message)
   \<and> fst (confirm scripted ''bob'' ''Tmp#1'' ''New#2''
         \<lparr>server = [PDict [(''is_challenge'', PBool False),
                           (''authentication'', PDict [(''refresh_token'', PStr ''ref'')])]],
          sent = []\<rparr>)
       = Inl (ValueError confirm_message)
   \<and> fst (confirm scripted ''bob'' ''Tmp#1'' ''New#2''
         \<lparr>server = [PDict [(''is_challenge'', PBool False),
                           (''authentication'', PDict [(''access_token'', PStr [])])]],
          sent = []\<rparr>)
       = Inl (ValueError confirm_message)"
  using confirm_returns_iff_truthy_access_token [OF run_challenge]
        confirm_returns_iff_truthy_access_token [OF run_plain [of "[]"]]
        confirm_returns_iff_truthy_access_token
          [OF run_plain [of "[(''authentication'', PDict [(''refresh_token'', PStr ''ref'')])]"]]
        confirm_returns_iff_truthy_access_token
          [OF run_plain [of "[(''authentication'', PDict [(''access_token'', PStr [])])]"]]
  by simp

text \<open>
  Claim C2 says that a final response without an access token makes \<open>confirm\<close>
  raise the error with the message about the failed confirmation. When the response carries
  \<open>authentication\<close> as null the lookup raises TypeError, which the handler for KeyError
  and ValueError does not catch: the TypeError leaves \<open>confirm\<close> instead.
\<close>

theorem confirm_null_authentication_raises_type_error:
  "fst (confirm scripted ''bob'' ''Tmp#1'' ''New#2''
         \<lparr>server = [PDict [(''is_challenge'', PBool False), (''authentication'', PNone)]],
          sent = []\<rparr>)
     = Inl TypeError"
  by (simp add: confirm_def confirm_token_json_def confirm_access_token_def call_to_json_def
                http_endpoint_def bind_err_def scripted_def)

subsection \<open>The Users that filter returns\<close>

lemma filter_run:
  "fst (filter_users scripted None (Some [''ann'']) None
         \<lparr>server = [PDict [(''ann'', PDict [(''group_ids'', PList [PStr ''staff'']),
                                             (''username'', PStr ''ann''),
                                             (''preferred_username'', PStr ''annie''),
                                             (''email'', PStr ''ann@x.org''),
                                             (''first_name'', PStr ''Ann''),
                                             (''last_name'', PStr ''Lee''),
                                             (''permissions'', PList [PStr ''read'']),
                                             (''is_active'', PBool True)])]],
          sent = []\<rparr>)
     = Inr [(''ann'', \<lparr>user_group_ids = Some (PList [PStr ''staff'']),
                       user_username = Some (PStr ''ann''),
                       user_preferred_username = Some (PStr ''annie''),
                       user_email = Some (PStr ''ann@x.org''),
                       user_first_name = Some (PStr ''Ann''),
                       user_last_name = Some (PStr ''Lee''),
                       user_tmp_password = None,
                       user_permissions = None,
                       user_is_active = None\<rparr>)]"
  by (simp add: filter_users_def call_to_json_def http_endpoint_def bind_err_def scripted_def
                partial_user_def)

text \<open>
  Claim C7, as the spec words it: the Users that \<open>filter\<close> returns carry group
  membership fields only. They also carry username, preferred_username, email, first_name
  and last_name, as this run shows.
\<close>

theorem filter_users_populates_profile_fields_counterexample:
  "fst (filter_users scripted None (Some [''ann'']) None
         \<lparr>server = [PDict [(''ann'', PDict [(''group_ids'', PList [PStr ''staff'']),
                                             (''username'', PStr ''ann''),
                                             (''preferred_username'', PStr ''annie''),
                                             (''email'', PStr ''ann@x.org''),
                                             (''first_name'', PStr ''Ann''),
                                             (''last_name'', PStr ''Lee''),
                                             (''permissions'', PList [PStr ''read'']),
                                             (''is_active'', PBool True)])]],
          sent = []\<rparr>)
     = Inr [(''ann'', \<lparr>user_group_ids = Some (PList [PStr ''staff'']),
                       user_username = Some (PStr ''ann''),
                       user_preferred_username = Some (PStr ''annie''),
                       user_email = Some (PStr ''ann@x.org''),
                       user_first_name = Some (PStr ''Ann''),
                       user_last_name = Some (PStr ''Lee''),
                       user_tmp_password = None,
                       user_permissions = None,
                       user_is_active = None\<rparr>)]
   \<and> Some (PStr ''ann@x.org'') \<noteq> None"
  by (simp add: filter_run)

text \<open>
  Claim C7, amended. When \<open>filter\<close> succeeds, the response to its request is a JSON
  object and the result has exactly the keys of that object. Each key is mapped to a partial
  User built from an entry of the response under that key: group_ids, username,
  preferred_username, email, first_name and last_name are the values of that entry, while
  permissions, is_active and tmp_password are not populated.
\<close>

theorem filter_users_partial_user_fields:
  assumes "fst (filter_users t group_id usernames is_active w) = Inr users"
  shows "\<exists>r items s'.
           path r = ''/user/filter'' \<and> t r (server w) = (Inr (PDict items), s')
         \<and> fst ` set users = fst ` set items
         \<and> (\<forall>(key, u) \<in> set users.
               \<exists>user_dict. (key, user_dict) \<in> set items
                 \<and> map_option Inr (user_group_ids u) = Some (subscript user_dict ''group_ids'')
                 \<and> map_option Inr (user_username u) = Some (subscript user_dict ''username'')
                 \<and> map_option Inr (user_preferred_username u)
                      = Some (subscript user_dict ''preferred_username'')
                 \<and> map_option Inr (user_email u) = Some (subscript user_dict ''email'')
                 \<and> map_option Inr (user_first_name u) = Some (subscript user_dict ''first_name'')
                 \<and> map_option Inr (user_last_name u) = Some (subscript user_dict ''last_name'')
                 \<and> user_permissions u = None \<and> user_is_active u = None
                 \<and> user_tmp_password u = None)"
proof -
  define r where "r = http_endpoint ''/user/filter'' ''GET''
                (Some ([(''group_id'', py_opt_str group_id),
                        (''is_active'', py_opt_bool is_active)]
                       @ map (\<lambda>username. (''username'', PStr username)) (or_empty usernames)))
                None"
  obtain res s' where call: "t r (server w) = (res, s')" by (cases "t r (server w)")
  with assms obtain response_body_json where res: "res = Inr response_body_json"
    and loop0: "bind_err (dict_items response_body_json) (\<lambda>items. filter_loop items []) = Inr users"
    by (cases res) (auto simp: filter_users_def call_to_json_def r_def)
  from loop0 obtain items where items: "response_body_json = PDict items"
    and loop: "filter_loop items [] = Inr users"
    by (cases response_body_json) (auto simp: bind_err_def)
  have keys: "fst ` set users = fst ` set items"
    using filter_loop_keys [OF loop] by simp
  have vals: "\<exists>user_dict. (key, user_dict) \<in> set items \<and> partial_user user_dict = Inr u"
    if "(key, u) \<in> set users" for key u
    using filter_loop_values [OF loop that] by simp
  have "path r = ''/user/filter''" by (simp add: r_def http_endpoint_def)
  moreover have "t r (server w) = (Inr (PDict items), s')" using call res items by simp
  moreover have "\<forall>(key, u) \<in> set users.
               \<exists>user_dict. (key, user_dict) \<in> set items
                 \<and> map_option Inr (user_group_ids u) = Some (subscript user_dict ''group_ids'')
                 \<and> map_option Inr (user_username u) = Some (subscript user_dict ''username'')
                 \<and> map_option Inr (user_preferred_username u)
                      = Some (subscript user_dict ''preferred_username'')
                 \<and> map_option Inr (user_email u) = Some (subscript user_dict ''email'')
                 \<and> map_option Inr (user_first_name u) = Some (subscript user_dict ''first_name'')
                 \<and> map_option Inr (user_last_name u) = Some (subscript user_dict ''last_name'')
                 \<and> user_permissions u = None \<and> user_is_active u = None
                 \<and> user_tmp_password u = None"
  proof (clarify)
    fix key u assume "(key, u) \<in> set users"
    from vals [OF this] obtain user_dict where d: "(key, user_dict) \<in> set items"
      and p: "partial_user user_dict = Inr u" by blast
    from d partial_user_Inr [OF p]
    show "\<exists>user_dict. (key, user_dict) \<in> set items
                 \<and> map_option Inr (user_group_ids u) = Some (subscript user_dict ''group_ids'')
                 \<and> map_option Inr (user_username u) = Some (subscript user_dict ''username'')
                 \<and> map_option Inr (user_preferred_username u)
                      = Some (subscript user_dict ''preferred_username'')
                 \<and> map_option Inr (user_email u) = Some (subscript user_dict ''email'')
                 \<and> map_option Inr (user_first_name u) = Some (subscript user_dict ''first_name'')
                 \<and> map_option Inr (user_last_name u) = Some (subscript user_dict ''last_name'')
                 \<and> user_permissions u = None \<and> user_is_active u = None
                 \<and> user_tmp_password u = None"
      by blast
  qed
  ultimately show ?thesis using keys by blast
qed

theorem filter_users_partial_user_fields_witness:
  "fst (filter_users scripted None (Some [''ann'']) None
         \<lparr>server = [PDict [(''ann'', PDict [(''group_ids'', PList [PStr ''staff'']),
                                             (''username'', PStr ''ann''),
                                             (''preferred_username'', PStr ''annie''),
                                             (''email'', PStr ''ann@x.org''),
                                             (''first_name'', PStr ''Ann''),
                                             (''last_name'', PStr ''Lee''),
                                             (''permissions'', PList [PStr ''read'']),
                                             (''is_active'', PBool True)])]],
          sent = []\<rparr>)
     = Inr [(''ann'', \<lparr>user_group_ids = Some (PList [PStr ''staff'']),
                       user_username = Some (PStr ''ann''),
                       user_preferred_username = Some (PStr ''annie''),
                       user_email = Some (PStr ''ann@x.org''),
                       user_first_name = Some (PStr ''Ann''),
                       user_last_name = Some (PStr ''Lee''),
                       user_tmp_password = None,
                       user_permissions = None,
                       user_is_active = None\<rparr>)]
   \<and> (\<exists>r items s'.
           path r = ''/user/filter''
         \<and> scripted r [PDict [(''ann'', PDict [(''group_ids'', PList [PStr ''staff'']),
                                             (''username'', PStr ''ann''),
                                             (''preferred_username'', PStr ''annie''),
                                             (''email'', PStr ''ann@x.org''),
                                             (''first_name'', PStr ''Ann''),
                                             (''last_name'', PStr ''Lee''),
                                             (''permissions'', PList [PStr ''read'']),
                                             (''is_active'', PBool True)])]]
             = (Inr (PDict items), s')
         \<and> {''ann''} = fst ` set items)"
  using filter_users_partial_user_fields [OF filter_run] filter_run
  by auto

subsection \<open>create followed by get\<close>

lemma create_Inr:
  assumes "fst (create t email preferred_username first_name last_name username group_ids permissions w)
             = Inr u"
  shows "\<exists>create_json s1 uname.
           t \<lparr>path = ''/user/create'', http_method = ''POST'', qfields = None,
              body = Some [(''username'', py_opt_str username),
                           (''group_ids'', py_opt_strs group_ids),
                           (''email'', PStr email),
                           (''preferred_username'', PStr preferred_username),
                           (''first_name'', PStr first_name),
                           (''last_name'', PStr last_name),
                           (''permissions'', py_opt_strs permissions)]\<rparr> (server w)
             = (Inr create_json, s1)
         \<and> server (snd (create t email preferred_username first_name last_name username
                            group_ids permissions w)) = s1
         \<and> subscript create_json ''username'' = Inr uname
         \<and> user_username u = Some uname"
  using assms
  by (auto simp: create_def call_to_json_def http_endpoint_def bind_err_Inr
           split: prod.splits sum.splits)

text \<open>
  Claim C6. The round trip runs through the service. Take a service that answers
  /user/get for a username with the username it issued in its answer to /user/create and
  with the email, preferred_username, first_name and last_name of the body it received
  there. Then, for every successful \<open>create\<close> followed by a successful \<open>get\<close> of the
  created username, the User that \<open>get\<close> returns has the same username, email,
  preferred_username, first_name and last_name as the User that \<open>create\<close> returned.
\<close>

theorem create_then_get_round_trip:
  assumes created: "fst (create t email preferred_username first_name last_name username
                           group_ids permissions w) = Inr u"
      and same_user: "user_username u = Some (PStr name)"
      and fetched: "fst (get t name (snd (create t email preferred_username first_name last_name
                                            username group_ids permissions w))) = Inr u'"
      and service: "\<And>create_body create_json s1 get_json s2.
             t \<lparr>path = ''/user/create'', http_method = ''POST'', qfields = None,
                body = Some create_body\<rparr> (server w) = (Inr create_json, s1) \<Longrightarrow>
             t \<lparr>path = ''/user/get'', http_method = ''GET'',
                qfields = Some [(''username'', PStr name)], body = None\<rparr> s1
               = (Inr get_json, s2) \<Longrightarrow>
             subscript get_json ''username'' = subscript create_json ''username''
           \<and> subscript get_json ''email'' = subscript (PDict create_body) ''email''
           \<and> subscript get_json ''preferred_username''
                = subscript (PDict create_body) ''preferred_username''
           \<and> subscript get_json ''first_name'' = subscript (PDict create_body) ''first_name''
           \<and> subscript get_json ''last_name'' = subscript (PDict create_body) ''last_name''"
  shows "user_username u' = user_username u
       \<and> user_email u' = user_email u
       \<and> user_preferred_username u' = user_preferred_username u
       \<and> user_first_name u' = user_first_name u
       \<and> user_last_name u' = user_last_name u"
proof -
  let ?w1 = "snd (create t email preferred_username first_name last_name username
                    group_ids permissions w)"
  from create_Inr [OF created] obtain create_json s1 uname
    where c: "t \<lparr>path = ''/user/create'', http_method = ''POST'', qfields = None,
              body = Some [(''username'', py_opt_str username),
                           (''group_ids'', py_opt_strs group_ids),
                           (''email'', PStr email),
                           (''preferred_username'', PStr preferred_username),
                           (''first_name'', PStr first_name),
                           (''last_name'', PStr last_name),
                           (''permissions'', py_opt_strs permissions)]\<rparr> (server w)
             = (Inr create_json, s1)"
      and s1: "server ?w1 = s1"
      and cu: "subscript create_json ''username'' = Inr uname"
      and uu: "user_username u = Some uname"
    by blast
  from fst_get_Inr [OF fetched] obtain get_json
    where g: "fst (t \<lparr>path = ''/user/get'', http_method = ''GET'',
                       qfields = Some [(''username'', PStr name)], body = None\<rparr> (server ?w1))
                = Inr get_json"
      and gu: "map_option Inr (user_username u') = Some (subscript get_json ''username'')"
      and ge: "map_option Inr (user_email u') = Some (subscript get_json ''email'')"
      and gp: "map_option Inr (user_preferred_username u')
                 = Some (subscript get_json ''preferred_username'')"
      and gf: "map_option Inr (user_first_name u') = Some (subscript get_json ''first_name'')"
      and gl: "map_option Inr (user_last_name u') = Some (subscript get_json ''last_name'')"
    by blast
  from g s1 obtain s2
    where g': "t \<lparr>path = ''/user/get'', http_method = ''GET'',
                   qfields = Some [(''username'', PStr name)], body = None\<rparr> s1
                 = (Inr get_json, s2)"
    by (cases "t \<lparr>path = ''/user/get'', http_method = ''GET'',
                   qfields = Some [(''username'', PStr name)], body = None\<rparr> s1") auto
  note sv = service [OF c g']
  from sv cu gu uu have 1: "user_username u' = user_username u"
    by (cases "user_username u'") auto
  from sv ge fst_create_Inr [OF created] have 2: "user_email u' = user_email u"
    by (cases "user_email u'") auto
  from sv gp fst_create_Inr [OF created]
  have 3: "user_preferred_username u' = user_preferred_username u"
    by (cases "user_preferred_username u'") auto
  from sv gf fst_create_Inr [OF created] have 4: "user_first_name u' = user_first_name u"
    by (cases "user_first_name u'") auto
  from sv gl fst_create_Inr [OF created] have 5: "user_last_name u' = user_last_name u"
    by (cases "user_last_name u'") auto
  from 1 2 3 4 5 show ?thesis by simp
qed

text \<open>
  The service that keeps users is such a service, and the round trip runs on it.
\<close>

lemma user_store_keeps_what_it_is_sent:
  assumes "user_store \<lparr>path = ''/user/create'', http_method = ''POST'', qfields = None,
                       body = Some create_body\<rparr> [] = (Inr create_json, s1)"
      and "user_store \<lparr>path = ''/user/get'', http_method = ''GET'',
                       qfields = Some [(''username'', PStr name)], body = None\<rparr> s1
             = (Inr get_json, s2)"
  shows "subscript get_json ''username'' = subscript create_json ''username''
       \<and> subscript get_json ''email'' = subscript (PDict create_body) ''email''
       \<and> subscript get_json ''preferred_username''
            = subscript (PDict create_body) ''preferred_username''
       \<and> subscript get_json ''first_name'' = subscript (PDict create_body) ''first_name''
       \<and> subscript get_json ''last_name'' = subscript (PDict create_body) ''last_name''"
proof -
  from assms(1) obtain n where n: "map_of create_body ''username'' = Some (PStr n)"
    and cj: "create_json = PDict [(''username'', PStr n), (''tmp_password'', PStr ''Tmp#1'')]"
    and s1: "s1 = [(n, create_body)]"
    by (auto simp: user_store_def split: option.splits pyval.splits)
  from assms(2) have name: "n = name"
    and gj: "get_json = PDict (create_body @ [(''is_active'', PBool True)])"
    by (auto simp: user_store_def s1 split: if_splits)
  show ?thesis
    by (simp add: cj gj n map_add_def split: option.splits)
qed

lemma create_ann:
  "create user_store ''Ann@X.org'' ''annie'' ''Ann'' ''Lee'' (Some ''ann'') None None
       \<lparr>server = [], sent = []\<rparr>
   = (Inr \<lparr>user_group_ids = Some PNone,
           user_username = Some (PStr ''ann''),
           user_preferred_username = Some (PStr ''annie''),
           user_email = Some (PStr ''Ann@X.org''),
           user_first_name = Some (PStr ''Ann''),
           user_last_name = Some (PStr ''Lee''),
           user_tmp_password = Some (PStr ''Tmp#1''),
           user_permissions = Some PNone,
           user_is_active = None\<rparr>,
      \<lparr>server = [(''ann'', [(''username'', PStr ''ann''),
                             (''group_ids'', PNone),
                             (''email'', PStr ''Ann@X.org''),
                             (''preferred_username'', PStr ''annie''),
                             (''first_name'', PStr ''Ann''),
                             (''last_name'', PStr ''Lee''),
                             (''permissions'', PNone)])],
       sent = [\<lparr>path = ''/user/create'', http_method = ''POST'', qfields = None,
                body = Some [(''username'', PStr ''ann''),
                             (''group_ids'', PNone),
                             (''email'', PStr ''Ann@X.org''),
                             (''preferred_username'', PStr ''annie''),
                             (''first_name'', PStr ''Ann''),
                             (''last_name'', PStr ''Lee''),
                             (''permissions'', PNone)]\<rparr>]\<rparr>)"
  by (simp add: create_def call_to_json_def http_endpoint_def bind_err_def user_store_def
                py_opt_str_def py_opt_strs_def)

theorem create_then_get_round_trip_witness:
  "fst (create user_store ''Ann@X.org'' ''annie'' ''Ann'' ''Lee'' (Some ''ann'') None None
          \<lparr>server = [], sent = []\<rparr>)
     = Inr \<lparr>user_group_ids = Some PNone,
            user_username = Some (PStr ''ann''),
            user_preferred_username = Some (PStr ''annie''),
            user_email = Some (PStr ''Ann@X.org''),
            user_first_name = Some (PStr ''Ann''),
            user_last_name = Some (PStr ''Lee''),
            user_tmp_password = Some (PStr ''Tmp#1''),
            user_permissions = Some PNone,
            user_is_active = None\<rparr>
   \<and> fst (get user_store ''ann''
          (snd (create user_store ''Ann@X.org'' ''annie'' ''Ann'' ''Lee'' (Some ''ann'') None None
                  \<lparr>server = [], sent = []\<rparr>)))
     = Inr \<lparr>user_group_ids = Some PNone,
            user_username = Some (PStr ''ann''),
            user_preferred_username = Some (PStr ''annie''),
            user_email = Some (PStr ''Ann@X.org''),
            user_first_name = Some (PStr ''Ann''),
            user_last_name = Some (PStr ''Lee''),
            user_tmp_password = None,
            user_permissions = Some PNone,
            user_is_active = Some (PBool True)\<rparr>"
proof -
  let ?w = "\<lparr>server = [], sent = []\<rparr> :: (string \<times> (string \<times> pyval) list) list world"
  let ?u = "\<lparr>user_group_ids = Some PNone,
            user_username = Some (PStr ''ann''),
            user_preferred_username = Some (PStr ''annie''),
            user_email = Some (PStr ''Ann@X.org''),
            user_first_name = Some (PStr ''Ann''),
            user_last_name = Some (PStr ''Lee''),
            user_tmp_password = Some (PStr ''Tmp#1''),
            user_permissions = Some PNone,
            user_is_active = None\<rparr>"
  let ?u' = "\<lparr>user_group_ids = Some PNone,
            user_username = Some (PStr ''ann''),
            user_preferred_username = Some (PStr ''annie''),
            user_email = Some (PStr ''Ann@X.org''),
            user_first_name = Some (PStr ''Ann''),
            user_last_name = Some (PStr ''Lee''),
            user_tmp_password = None,
            user_permissions = Some PNone,
            user_is_active = Some (PBool True)\<rparr>"
  have created: "fst (create user_store ''Ann@X.org'' ''annie'' ''Ann'' ''Lee'' (Some ''ann'')
                        None None ?w) = Inr ?u"
    by (simp add: create_ann)
  have same_user: "user_username ?u = Some (PStr ''ann'')"
    by simp
  have fetched: "fst (get user_store ''ann''
                   (snd (create user_store ''Ann@X.org'' ''annie'' ''Ann'' ''Lee'' (Some ''ann'')
                           None None ?w))) = Inr ?u'"
    by (simp add: create_ann get_def call_to_json_def http_endpoint_def bind_err_def
                  user_store_def)
  have service:
    "subscript get_json ''username'' = subscript create_json ''username''
       \<and> subscript get_json ''email'' = subscript (PDict create_body) ''email''
       \<and> subscript get_json ''preferred_username''
            = subscript (PDict create_body) ''preferred_username''
       \<and> subscript get_json ''first_name'' = subscript (PDict create_body) ''first_name''
       \<and> subscript get_json ''last_name'' = subscript (PDict create_body) ''last_name''"
    if "user_store \<lparr>path = ''/user/create'', http_method = ''POST'', qfields = None,
                     body = Some create_body\<rparr> (server ?w) = (Inr create_json, s1)"
      and "user_store \<lparr>path = ''/user/get'', http_method = ''GET'',
                     qfields = Some [(''username'', PStr ''ann'')], body = None\<rparr> s1
             = (Inr get_json, s2)"
    for create_body create_json s1 get_json s2
    using that user_store_keeps_what_it_is_sent [of create_body create_json s1 "''ann''" get_json s2]
    by simp
  have "user_username ?u' = user_username ?u
       \<and> user_email ?u' = user_email ?u
       \<and> user_preferred_username ?u' = user_preferred_username ?u
       \<and> user_first_name ?u' = user_first_name ?u
       \<and> user_last_name ?u' = user_last_name ?u"
    by (rule create_then_get_round_trip
               [where t = user_store, OF created same_user fetched service])
  with created fetched show ?thesis
    by simp
qed

end
